theory Spec2Isabelle
  imports Main "HOL-Library.Word" "HOL-Library.Log_Nat"
begin

section \<open>JavaScript values used by lib/asset/AssetGenerator.js\<close>

text \<open>
  A JavaScript string is a sequence of UTF-16 code units, a Node.js Buffer a sequence of
  octets. String literals of the source are written with \<open>js\<close>.
\<close>

type_synonym jsstring = "16 word list"
type_synonym buffer = "8 word list"

definition js :: "string \<Rightarrow> jsstring" where
  "js s = map of_char s"

text \<open>
  Truthiness of a value that is \<open>undefined\<close> (or \<open>false\<close>) or a string: only a non-empty
  string is truthy. This is the test behind \<open>a || b\<close>, \<open>!a\<close> and \<open>if (a)\<close>.
\<close>

definition truthy :: "jsstring option \<Rightarrow> bool" where
  "truthy v = (case v of None \<Rightarrow> False | Some s \<Rightarrow> s \<noteq> [])"

definition js_or :: "jsstring option \<Rightarrow> jsstring option \<Rightarrow> jsstring option" where
  "js_or a b = (if truthy a then a else b)"

text \<open>\<open>s.slice(0, n)\<close> for an integral \<open>n\<close>: a negative end counts from the end of the string.\<close>

definition slice0 :: "jsstring \<Rightarrow> int \<Rightarrow> jsstring" where
  "slice0 s n = (if n < 0 then take (nat (int (length s) + n)) s else take (nat n) s)"

text \<open>\<open>s.replace(/^\.\//, "")\<close>: one leading \<open>./\<close> is removed.\<close>

definition stripDotSlash :: "jsstring \<Rightarrow> jsstring" where
  "stripDotSlash s = (case s of a # b # rest \<Rightarrow> if a = 0x2E \<and> b = 0x2F then rest else s | _ \<Rightarrow> s)"

subsection \<open>Numbers\<close>

text \<open>
  A JavaScript number is an IEEE 754 double. The numbers of this file are non-negative and
  finite, so a number is modelled by the rational it denotes, and every arithmetic
  operation rounds its exact result to the nearest value with a 53-bit significand, ties
  to even (\<open>to_double\<close>). The exponent range is not modelled: sizes are below \<open>2^53\<close>,
  and no result of \<open>getSize\<close> is near the overflow threshold or subnormal.
\<close>

type_synonym jsnum = rat

definition round_half_even :: "rat \<Rightarrow> int" where
  "round_half_even q =
     (let f = \<lfloor>q\<rfloor>; r = q - of_int f
      in if r < 1 / 2 then f
         else if 1 / 2 < r then f + 1
         else if even f then f else f + 1)"

text \<open>\<open>binade x\<close> is \<open>\<lfloor>log\<^sub>2 x\<rfloor>\<close> for a positive rational \<open>x\<close>.\<close>

definition binade :: "rat \<Rightarrow> int" where
  "binade x =
     (let p = fst (quotient_of x); q = snd (quotient_of x);
          d = bitlen p - bitlen q
      in if 2 powi d \<le> x then d else d - 1)"

definition to_double :: "rat \<Rightarrow> jsnum" where
  "to_double x =
     (if x = 0 then 0
      else let u = 2 powi (binade \<bar>x\<bar> - 52)
           in sgn x * of_int (round_half_even (\<bar>x\<bar> / u)) * u)"

definition js_of_nat :: "nat \<Rightarrow> jsnum" where
  "js_of_nat n = to_double (of_nat n)"

definition js_mul :: "jsnum \<Rightarrow> jsnum \<Rightarrow> jsnum" where
  "js_mul a b = to_double (a * b)"

definition js_add :: "jsnum \<Rightarrow> jsnum \<Rightarrow> jsnum" where
  "js_add a b = to_double (a + b)"

text \<open>The literal \<open>1.34\<close> of the source denotes the double nearest to 134/100.\<close>

definition lit_1_34 :: jsnum where
  "lit_1_34 = to_double (134 / 100)"



subsection \<open>Errors\<close>

text \<open>
  \<open>Error msg\<close> is the \<open>new Error(msg)\<close> that \<open>generate\<close> throws itself. \<open>TypeError\<close> is
  what reading a property of \<open>null\<close> or \<open>undefined\<close> throws, \<open>URIError\<close> what \<open>encodeURI\<close>
  throws on an unpaired surrogate.
\<close>

datatype error = Error jsstring | TypeError | URIError

subsection \<open>\<open>encodeURI\<close> (ECMA-262, Encode with the reserved and unescaped sets and \<open>#\<close>)\<close>

definition uriUnescaped :: "16 word \<Rightarrow> bool" where
  "uriUnescaped c \<longleftrightarrow>
     c \<in> set (js ''ABCDEFGHIJKLMNOPQRSTUVWXYZabcdefghijklmnopqrstuvwxyz0123456789-_.!~*'();/?:@&=+$,#'')"

definition hex_digit :: "nat \<Rightarrow> 16 word" where
  "hex_digit n = (if n < 10 then of_nat (48 + n) else of_nat (55 + n))"

definition percent_octet :: "8 word \<Rightarrow> jsstring" where
  "percent_octet b = [0x25, hex_digit (unat b div 16), hex_digit (unat b mod 16)]"

definition utf8_octets :: "nat \<Rightarrow> buffer" where
  "utf8_octets v =
     (if v < 0x80 then [of_nat v]
      else if v < 0x800 then [of_nat (0xC0 + v div 64), of_nat (0x80 + v mod 64)]
      else if v < 0x10000 then
        [of_nat (0xE0 + v div 4096), of_nat (0x80 + v div 64 mod 64), of_nat (0x80 + v mod 64)]
      else
        [of_nat (0xF0 + v div 262144), of_nat (0x80 + v div 4096 mod 64),
         of_nat (0x80 + v div 64 mod 64), of_nat (0x80 + v mod 64)])"

definition escape_code_point :: "nat \<Rightarrow> jsstring" where
  "escape_code_point v = concat (map percent_octet (utf8_octets v))"

fun encodeURI :: "jsstring \<Rightarrow> error + jsstring" where
  "encodeURI [] = Inr []"
| "encodeURI (c # cs) =
     (if uriUnescaped c then
        (case encodeURI cs of Inl e \<Rightarrow> Inl e | Inr r \<Rightarrow> Inr (c # r))
      else if 0xDC00 \<le> c \<and> c \<le> 0xDFFF then Inl URIError
      else if c < 0xD800 \<or> 0xDBFF < c then
        (case encodeURI cs of Inl e \<Rightarrow> Inl e
         | Inr r \<Rightarrow> Inr (escape_code_point (unat c) @ r))
      else
        (case cs of
           [] \<Rightarrow> Inl URIError
         | k # ks \<Rightarrow>
             if k < 0xDC00 \<or> 0xDFFF < k then Inl URIError
             else
               (case encodeURI ks of Inl e \<Rightarrow> Inl e
                | Inr r \<Rightarrow>
                    Inr (escape_code_point
                           ((unat c - 0xD800) * 0x400 + (unat k - 0xDC00) + 0x10000) @ r))))"

subsection \<open>\<open>buf.toString("base64")\<close> (RFC 4648, with padding)\<close>

definition base64_char :: "nat \<Rightarrow> 16 word" where
  "base64_char n =
     (if n < 26 then of_nat (65 + n)
      else if n < 52 then of_nat (71 + n)
      else if n < 62 then of_nat (n - 4)
      else if n = 62 then 0x2B else 0x2F)"

fun toString_base64 :: "buffer \<Rightarrow> jsstring" where
  "toString_base64 [] = []"
| "toString_base64 [a] =
     [base64_char (unat a div 4), base64_char (unat a mod 4 * 16), 0x3D, 0x3D]"
| "toString_base64 [a, b] =
     [base64_char (unat a div 4), base64_char (unat a mod 4 * 16 + unat b div 16),
      base64_char (unat b mod 16 * 4), 0x3D]"
| "toString_base64 (a # b # c # rest) =
     [base64_char (unat a div 4), base64_char (unat a mod 4 * 16 + unat b div 16),
      base64_char (unat b mod 16 * 4 + unat c div 64), base64_char (unat c mod 64)]
     @ toString_base64 rest"

section \<open>Data model\<close>

text \<open>
  A webpack-sources \<open>Source\<close> is seen through the three methods the generator calls:
  \<open>source()\<close> (a string or a Buffer), \<open>buffer()\<close> and \<open>size()\<close>.
\<close>

record source =
  src_source :: "jsstring + buffer"
  src_buffer :: buffer
  src_size :: nat

text \<open>
  \<open>module.buildInfo\<close>: the \<open>dataUrl\<close> flag and the three fields that \<open>generate\<close> writes;
  \<open>None\<close> is a field that has not been assigned.
\<close>

record 'i buildInfo =
  dataUrl :: bool
  bi_filename :: "jsstring option"
  assetInfo :: "'i option"
  fullContentHash :: "jsstring option"

text \<open>
  A \<open>NormalModule\<close>, as far as the generator reads it. \<open>originalSource\<close> is \<open>None\<close> when
  \<open>module.originalSource()\<close> returns \<open>null\<close>; \<open>nameForCondition\<close> is the result of the
  method of that name.
\<close>

record 'i normalModule =
  originalSource :: "source option"
  buildInfo :: "'i buildInfo"
  matchResource :: "jsstring option"
  resource :: jsstring
  nameForCondition :: jsstring

text \<open>
  The generator's \<open>dataUrlOptions\<close>: a function \<open>(content, {filename, module})\<close>, or an
  object with an \<open>encoding\<close> and an optional \<open>mimetype\<close>. The encoding is any JavaScript
  value the \<open>switch\<close> can meet: a string, a boolean or \<open>undefined\<close>.
\<close>

datatype encoding = EncString jsstring | EncBool bool | EncUndefined

record declarativeOptions =
  encoding :: encoding
  mimetype :: "jsstring option"

datatype 'i dataUrlOptions =
  Custom "jsstring + buffer \<Rightarrow> jsstring \<Rightarrow> 'i normalModule \<Rightarrow> jsstring"
| Declarative declarativeOptions

text \<open>
  \<open>runtimeTemplate.outputOptions\<close> and \<open>runtimeTemplate.declareConst\<close>. Values that the
  generator only hands on (the hash function, the runtime, the chunk graph, the
  compiler's root) have the opaque type \<open>'o\<close>.
\<close>

record 'o outputOptions =
  assetModuleFilename :: jsstring
  hashFunction :: 'o
  hashSalt :: "jsstring option"
  hashDigest :: jsstring
  hashDigestLength :: int

record 'o runtimeTemplate =
  outputOptions :: "'o outputOptions"
  declareConst :: "jsstring \<Rightarrow> jsstring \<Rightarrow> jsstring"

text \<open>
  The second argument of \<open>compilation.getAssetPathWithInfo\<close>, and the compilation. The
  call may throw (\<open>Inl\<close>) instead of returning the path and the asset info: \<open>generate\<close>
  calls it between its writes to the build info.
\<close>

record ('i, 'o) pathData =
  pd_module :: "'i normalModule"
  pd_runtime :: 'o
  pd_filename :: jsstring
  pd_chunkGraph :: 'o
  pd_contentHash :: jsstring

record ('i, 'o) compilation =
  getAssetPathWithInfo :: "jsstring \<Rightarrow> ('i, 'o) pathData \<Rightarrow> error + jsstring \<times> 'i"
  compiler_context :: jsstring
  compiler_root :: 'o

text \<open>The fields of an \<open>AssetGenerator\<close>, set by its constructor.\<close>

record ('i, 'o) assetGenerator =
  compilation :: "('i, 'o) compilation"
  dataUrlOptions :: "'i dataUrlOptions option"
  filename :: "jsstring option"

text \<open>
  The \<open>generateContext\<close> argument. A concatenation scope is seen through the one method
  called on it: its state is the list of names registered with
  \<open>registerNamespaceExport\<close>.
\<close>

record 'o generateContext =
  runtime :: 'o
  chunkGraph :: 'o
  runtimeTemplate :: "'o runtimeTemplate"
  runtimeRequirements :: "jsstring set"
  requestedType :: jsstring
  concatenationScope :: "jsstring list option"

text \<open>
  What the generator takes from its imports: \<open>path.extname\<close>, \<open>mimeTypes.lookup\<close>
  (\<open>None\<close> for \<open>false\<close>), \<open>Buffer.prototype.toString("utf-8")\<close>, \<open>JSON.stringify\<close> on a
  string, the incremental hash of \<open>util/createHash\<close> (of state \<open>'h\<close>),
  \<open>makePathsRelative\<close>, the two \<open>RuntimeGlobals\<close> and the export name of
  \<open>ConcatenationScope\<close>. \<open>makePathsRelative\<close> is called between the writes to the build
  info, so its call may throw (\<open>Inl\<close>). The other calls, and those of \<open>declareConst\<close> and
  of a custom data URL function, come before the first write or after the last one; they
  return a value and do nothing else.
\<close>

record ('h, 'o) environment =
  path_extname :: "jsstring \<Rightarrow> jsstring"
  mimeTypes_lookup :: "jsstring \<Rightarrow> jsstring option"
  toString_utf8 :: "buffer \<Rightarrow> jsstring"
  JSON_stringify :: "jsstring \<Rightarrow> jsstring"
  createHash :: "'o \<Rightarrow> 'h"
  hash_update :: "'h \<Rightarrow> jsstring + buffer \<Rightarrow> 'h"
  hash_digest :: "'h \<Rightarrow> jsstring \<Rightarrow> jsstring"
  makePathsRelative :: "jsstring \<Rightarrow> jsstring \<Rightarrow> 'o \<Rightarrow> error + jsstring"
  RuntimeGlobals_module :: jsstring
  RuntimeGlobals_publicPath :: jsstring
  NAMESPACE_OBJECT_EXPORT :: jsstring

text \<open>
  The value \<open>generate\<close> returns is the module's own original source (which may be
  \<open>null\<close>) or a \<open>new RawSource(code)\<close>. Its effects are returned with it: the module with
  its build info, the set of runtime requirements and the concatenation scope.

  A call that throws gives the error and the module as it is at the throw. The set of
  runtime requirements and the concatenation scope are then as before the call:
  \<open>generate\<close> changes them after the last call that can throw.
\<close>

datatype generated = Original "source option" | RawSource jsstring

record 'i generateResult =
  res_source :: generated
  res_module :: "'i normalModule"
  res_runtimeRequirements :: "jsstring set"
  res_concatenationScope :: "jsstring list option"

type_synonym 'i thrown = "error \<times> 'i normalModule"

section \<open>The generator\<close>

definition JS_TYPES :: "jsstring set" where
  "JS_TYPES = {js ''javascript''}"

definition JS_AND_ASSET_TYPES :: "jsstring set" where
  "JS_AND_ASSET_TYPES = {js ''javascript'', js ''asset''}"

definition getConcatenationBailoutReason :: "'i normalModule \<Rightarrow> jsstring option" where
  "getConcatenationBailoutReason m =
     (if \<not> dataUrl (buildInfo m) then Some (js ''Asset module emits an asset'') else None)"

definition resourceOf :: "'i normalModule \<Rightarrow> jsstring" where
  "resourceOf m = (case matchResource m of
       None \<Rightarrow> resource m
     | Some r \<Rightarrow> if r \<noteq> [] then r else resource m)"

definition noMimetypeMessage :: "jsstring \<Rightarrow> jsstring" where
  "noMimetypeMessage ext =
     js ''DataUrl can't be generated automatically, '' @
     js ''because there is no mimetype for \"'' @ ext @ js ''\" in mimetype database. '' @
     js ''Either pass a mimetype via \"generator.mimetype\" or '' @
     js ''use type: \"asset/resource\" to create a resource file instead of a DataUrl''"

text \<open>\<open>`${encoding}`\<close>: the string conversion of the encoding value.\<close>

definition encoding_toString :: "encoding \<Rightarrow> jsstring" where
  "encoding_toString enc = (case enc of
       EncString s \<Rightarrow> s
     | EncBool b \<Rightarrow> (if b then js ''true'' else js ''false'')
     | EncUndefined \<Rightarrow> js ''undefined'')"

definition encoding_truthy :: "encoding \<Rightarrow> bool" where
  "encoding_truthy enc = (case enc of
       EncString s \<Rightarrow> s \<noteq> []
     | EncBool b \<Rightarrow> b
     | EncUndefined \<Rightarrow> False)"

definition unsupportedEncodingMessage :: "encoding \<Rightarrow> jsstring" where
  "unsupportedEncodingMessage enc =
     js ''Unsupported encoding '' @ [0x27] @ encoding_toString enc @ [0x27]"

text \<open>Lines 101 to 118: the \<open>switch (encoding)\<close> that computes \<open>encodedContent\<close>.\<close>

definition encodedContent ::
  "('h, 'o) environment \<Rightarrow> encoding \<Rightarrow> source option \<Rightarrow> error + jsstring" where
  "encodedContent env enc orig =
     (if enc = EncString (js ''base64'') then
        (case orig of
           None \<Rightarrow> Inl TypeError
         | Some s \<Rightarrow> Inr (toString_base64 (src_buffer s)))
      else if enc = EncBool False then
        (case orig of
           None \<Rightarrow> Inl TypeError
         | Some s \<Rightarrow>
             (case src_source s of
                Inl content \<Rightarrow> encodeURI content
              | Inr content \<Rightarrow> encodeURI (toString_utf8 env content)))
      else Inl (Error (unsupportedEncodingMessage enc)))"

text \<open>Lines 88 to 90: \<open>this.dataUrlOptions.mimetype || mimeTypes.lookup(ext)\<close>.\<close>

definition resolvedMimeType ::
  "('h, 'o) environment \<Rightarrow> declarativeOptions \<Rightarrow> 'i normalModule \<Rightarrow> jsstring option" where
  "resolvedMimeType env opts m =
     js_or (mimetype opts) (mimeTypes_lookup env (path_extname env (nameForCondition m)))"


text \<open>Lines 76 to 123: the data URL \<open>encodedSource\<close>.\<close>

definition encodedSource ::
  "('h, 'o) environment \<Rightarrow> ('i, 'o) assetGenerator \<Rightarrow> 'i normalModule \<Rightarrow> error + jsstring" where
  "encodedSource env this m =
     (case dataUrlOptions this of
        None \<Rightarrow> Inl TypeError
      | Some (Custom f) \<Rightarrow>
          (case originalSource m of
             None \<Rightarrow> Inl TypeError
           | Some s \<Rightarrow> Inr (f (src_source s) (resourceOf m) m))
      | Some (Declarative opts) \<Rightarrow>
          (let enc = encoding opts;
               ext = path_extname env (nameForCondition m);
               mimeType = resolvedMimeType env opts m
           in case mimeType of
                None \<Rightarrow> Inl (Error (noMimetypeMessage ext))
              | Some mt \<Rightarrow>
                  if mt = [] then Inl (Error (noMimetypeMessage ext))
                  else
                    (case encodedContent env enc (originalSource m) of
                       Inl e \<Rightarrow> Inl e
                     | Inr content \<Rightarrow>
                         Inr (js ''data:'' @ mt @
                              (if encoding_truthy enc then js '';'' @ encoding_toString enc else []) @
                              js '','' @ content))))"

text \<open>
  Lines 124 to 138 and 177 to 186: the value is bound to the namespace export of the
  concatenation scope, or assigned to \<open>module.exports\<close>.
\<close>

definition exportValue ::
  "('h, 'o) environment \<Rightarrow> 'o generateContext \<Rightarrow> jsstring set \<Rightarrow> 'i normalModule \<Rightarrow> jsstring \<Rightarrow>
   'i generateResult" where
  "exportValue env ctx reqs m val =
     (case concatenationScope ctx of
        Some scope \<Rightarrow>
          \<lparr>res_source = RawSource (declareConst (runtimeTemplate ctx) (NAMESPACE_OBJECT_EXPORT env) val),
           res_module = m,
           res_runtimeRequirements = reqs,
           res_concatenationScope = Some (scope @ [NAMESPACE_OBJECT_EXPORT env])\<rparr>
      | None \<Rightarrow>
          \<lparr>res_source = RawSource (RuntimeGlobals_module env @ js ''.exports = '' @ val @ js '';''),
           res_module = m,
           res_runtimeRequirements = insert (RuntimeGlobals_module env) reqs,
           res_concatenationScope = None\<rparr>)"

text \<open>Lines 140 to 170: the content hash, the file name and the three build-info fields.\<close>

definition fullHashOf :: "('h, 'o) environment \<Rightarrow> 'o outputOptions \<Rightarrow> buffer \<Rightarrow> jsstring" where
  "fullHashOf env oo bytes =
     (let hash0 = createHash env (hashFunction oo);
          hash1 = (case hashSalt oo of
                     None \<Rightarrow> hash0
                   | Some salt \<Rightarrow> if salt \<noteq> [] then hash_update env hash0 (Inl salt) else hash0);
          hash2 = hash_update env hash1 (Inr bytes)
      in hash_digest env hash2 (hashDigest oo))"

definition templateOf :: "('i, 'o) assetGenerator \<Rightarrow> 'o outputOptions \<Rightarrow> jsstring" where
  "templateOf this oo = (case filename this of
       None \<Rightarrow> assetModuleFilename oo
     | Some f \<Rightarrow> if f \<noteq> [] then f else assetModuleFilename oo)"

definition relativeFilename ::
  "('h, 'o) environment \<Rightarrow> ('i, 'o) assetGenerator \<Rightarrow> 'i normalModule \<Rightarrow> error + jsstring" where
  "relativeFilename env this m =
     (case makePathsRelative env (compiler_context (compilation this)) (resourceOf m)
             (compiler_root (compilation this)) of
        Inl e \<Rightarrow> Inl e
      | Inr p \<Rightarrow> Inr (stripDotSlash p))"

text \<open>Line 154, and lines 169 and 170: the writes to \<open>module.buildInfo\<close>.\<close>

definition moduleWithHash :: "'i normalModule \<Rightarrow> jsstring \<Rightarrow> 'i normalModule" where
  "moduleWithHash m fullHash = m\<lparr>buildInfo := (buildInfo m)\<lparr>fullContentHash := Some fullHash\<rparr>\<rparr>"

definition moduleWithPath :: "'i normalModule \<Rightarrow> jsstring \<Rightarrow> 'i \<Rightarrow> 'i normalModule" where
  "moduleWithPath m path info =
     m\<lparr>buildInfo := (buildInfo m)\<lparr>bi_filename := Some path, assetInfo := Some info\<rparr>\<rparr>"

text \<open>
  Lines 155 to 168: the call of \<open>getAssetPathWithInfo\<close>, after \<open>makePathsRelative\<close> for
  its argument. The module it is given has the full content hash written already.
\<close>

definition resolvePath ::
  "('h, 'o) environment \<Rightarrow> ('i, 'o) assetGenerator \<Rightarrow> 'i normalModule \<Rightarrow> 'o generateContext \<Rightarrow>
   buffer \<Rightarrow> error + jsstring \<times> 'i" where
  "resolvePath env this m ctx bytes =
     (let oo = outputOptions (runtimeTemplate ctx);
          fullHash = fullHashOf env oo bytes;
          contentHash = slice0 fullHash (hashDigestLength oo)
      in case relativeFilename env this m of
           Inl e \<Rightarrow> Inl e
         | Inr relative \<Rightarrow>
             getAssetPathWithInfo (compilation this) (templateOf this oo)
               \<lparr>pd_module = moduleWithHash m fullHash, pd_runtime = runtime ctx,
                pd_filename = relative, pd_chunkGraph = chunkGraph ctx,
                pd_contentHash = contentHash\<rparr>)"

definition generateResource ::
  "('h, 'o) environment \<Rightarrow> ('i, 'o) assetGenerator \<Rightarrow> 'i normalModule \<Rightarrow> 'o generateContext \<Rightarrow>
   'i thrown + 'i generateResult" where
  "generateResource env this m ctx =
     (case originalSource m of
        None \<Rightarrow> Inl (TypeError, m)
      | Some src \<Rightarrow>
          (let fullHash = fullHashOf env (outputOptions (runtimeTemplate ctx)) (src_buffer src);
               m1 = moduleWithHash m fullHash
           in case resolvePath env this m ctx (src_buffer src) of
                Inl e \<Rightarrow> Inl (e, m1)
              | Inr (path, info) \<Rightarrow>
                  (let m2 = moduleWithPath m1 path info;
                       reqs = insert (RuntimeGlobals_publicPath env) (runtimeRequirements ctx);
                       val = RuntimeGlobals_publicPath env @ js '' + '' @ JSON_stringify env path
                   in Inr (exportValue env ctx reqs m2 val))))"

definition generate ::
  "('h, 'o) environment \<Rightarrow> ('i, 'o) assetGenerator \<Rightarrow> 'i normalModule \<Rightarrow> 'o generateContext \<Rightarrow>
   'i thrown + 'i generateResult" where
  "generate env this m ctx =
     (if requestedType ctx = js ''asset'' then
        Inr \<lparr>res_source = Original (originalSource m), res_module = m,
             res_runtimeRequirements = runtimeRequirements ctx,
             res_concatenationScope = concatenationScope ctx\<rparr>
      else if dataUrl (buildInfo m) then
        (case encodedSource env this m of
           Inl e \<Rightarrow> Inl (e, m)
         | Inr url \<Rightarrow>
             Inr (exportValue env ctx (runtimeRequirements ctx) m (JSON_stringify env url)))
      else generateResource env this m ctx)"

definition getTypes :: "'i normalModule \<Rightarrow> jsstring set" where
  "getTypes m = (if dataUrl (buildInfo m) then JS_TYPES else JS_AND_ASSET_TYPES)"

text \<open>\<open>getSize(module, type)\<close>; the optional \<open>type\<close> is \<open>None\<close> when it is not passed.\<close>

definition getSize :: "'i normalModule \<Rightarrow> jsstring option \<Rightarrow> jsnum" where
  "getSize m type =
     (if type = Some (js ''asset'') then
        (case originalSource m of
           None \<Rightarrow> 0
         | Some s \<Rightarrow> js_of_nat (src_size s))
      else if dataUrl (buildInfo m) then
        (case originalSource m of
           None \<Rightarrow> 0
         | Some s \<Rightarrow> js_add (js_mul (js_of_nat (src_size s)) lit_1_34) 36)
      else 42)"

text \<open>\<open>updateHash(hash, {module})\<close> returns the hash it has updated.\<close>

definition updateHash :: "('h, 'o) environment \<Rightarrow> 'h \<Rightarrow> 'i normalModule \<Rightarrow> 'h" where
  "updateHash env hash m =
     hash_update env hash (Inl (if dataUrl (buildInfo m) then js ''data-url'' else js ''resource''))"

section \<open>Decoders of the specification\<close>

text \<open>
  The specification states two properties through the inverse of an encoding. The source
  has no decoder, so the two inverses are defined here from the specification's words.

  Percent-decoding: every \<open>%XY\<close> with two hexadecimal digits stands for the octet \<open>XY\<close>,
  every other character for itself. An octet below 128 is the ASCII character of that
  code; the result is \<open>None\<close> when an escape is malformed or its octet is not ASCII.
\<close>

definition hex_value :: "16 word \<Rightarrow> nat option" where
  "hex_value c =
     (if 0x30 \<le> c \<and> c \<le> 0x39 then Some (unat c - 0x30)
      else if 0x41 \<le> c \<and> c \<le> 0x46 then Some (unat c - 0x37)
      else if 0x61 \<le> c \<and> c \<le> 0x66 then Some (unat c - 0x57)
      else None)"

fun percent_decode_ascii :: "jsstring \<Rightarrow> jsstring option" where
  "percent_decode_ascii [] = Some []"
| "percent_decode_ascii (c # cs) =
     (if c = 0x25 then
        (case cs of
           h # l # rest \<Rightarrow>
             (case (hex_value h, hex_value l) of
                (Some a, Some b) \<Rightarrow>
                  if 16 * a + b < 0x80
                  then map_option (Cons (of_nat (16 * a + b))) (percent_decode_ascii rest)
                  else None
              | _ \<Rightarrow> None)
         | _ \<Rightarrow> None)
      else map_option (Cons c) (percent_decode_ascii cs))"

text \<open>
  Base64 decoding (RFC 4648): groups of four characters of the alphabet give three octets;
  the last group may end in one or two \<open>=\<close> and then gives two octets or one. Input that
  is not canonical base64 has no decoding.
\<close>

definition base64_value :: "16 word \<Rightarrow> nat option" where
  "base64_value c =
     (if 0x41 \<le> c \<and> c \<le> 0x5A then Some (unat c - 65)
      else if 0x61 \<le> c \<and> c \<le> 0x7A then Some (unat c - 71)
      else if 0x30 \<le> c \<and> c \<le> 0x39 then Some (unat c + 4)
      else if c = 0x2B then Some 62
      else if c = 0x2F then Some 63
      else None)"

fun base64_decode :: "jsstring \<Rightarrow> buffer option" where
  "base64_decode [] = Some []"
| "base64_decode (c1 # c2 # c3 # c4 # rest) =
     (if c4 = 0x3D then
        (if rest \<noteq> [] then None
         else if c3 = 0x3D then
           (case (base64_value c1, base64_value c2) of
              (Some v1, Some v2) \<Rightarrow>
                if v2 mod 16 = 0 then Some [of_nat (v1 * 4 + v2 div 16)] else None
            | _ \<Rightarrow> None)
         else
           (case (base64_value c1, base64_value c2, base64_value c3) of
              (Some v1, Some v2, Some v3) \<Rightarrow>
                if v3 mod 4 = 0
                then Some [of_nat (v1 * 4 + v2 div 16), of_nat (v2 mod 16 * 16 + v3 div 4)]
                else None
            | _ \<Rightarrow> None))
      else
        (case (base64_value c1, base64_value c2, base64_value c3, base64_value c4) of
           (Some v1, Some v2, Some v3, Some v4) \<Rightarrow>
             map_option
               (\<lambda>bs. of_nat (v1 * 4 + v2 div 16) # of_nat (v2 mod 16 * 16 + v3 div 4) #
                     of_nat (v3 mod 4 * 64 + v4) # bs)
               (base64_decode rest)
         | _ \<Rightarrow> None))"
| "base64_decode _ = None"

section \<open>Observations on a call of \<open>generate\<close>\<close>

text \<open>The module when the call has ended, by a return or by a throw.\<close>

definition moduleAfter :: "'i thrown + 'i generateResult \<Rightarrow> 'i normalModule" where
  "moduleAfter res = (case res of
       Inl (e, m) \<Rightarrow> m
     | Inr r \<Rightarrow> res_module r)"

definition resolvedFilename :: "'i thrown + 'i generateResult \<Rightarrow> jsstring option" where
  "resolvedFilename res = bi_filename (buildInfo (moduleAfter res))"

definition resolvedFullHash :: "'i thrown + 'i generateResult \<Rightarrow> jsstring option" where
  "resolvedFullHash res = fullContentHash (buildInfo (moduleAfter res))"

definition buildInfoUnset :: "'i buildInfo \<Rightarrow> bool" where
  "buildInfoUnset bi \<longleftrightarrow> bi_filename bi = None \<and> assetInfo bi = None \<and> fullContentHash bi = None"

definition buildInfoSet :: "'i buildInfo \<Rightarrow> bool" where
  "buildInfoSet bi \<longleftrightarrow> bi_filename bi \<noteq> None \<and> assetInfo bi \<noteq> None \<and> fullContentHash bi \<noteq> None"

section \<open>Example values\<close>

text \<open>
  A small environment on which the theorems below are instantiated. Its hash keeps the
  list of its updates and its digest is their concatenation; its path template engine
  builds the file name from the template, the runtime, the chunk graph, the module's
  \<open>resource\<close>, the content hash and the relative file name.
\<close>

definition exampleExtname :: "jsstring \<Rightarrow> jsstring" where
  "exampleExtname s =
     (if 0x2E \<in> set s then 0x2E # rev (takeWhile (\<lambda>c. c \<noteq> 0x2E) (rev s)) else [])"

definition exampleLookup :: "jsstring \<Rightarrow> jsstring option" where
  "exampleLookup ext =
     (if ext = js ''.txt'' then Some (js ''text/plain'')
      else if ext = js ''.png'' then Some (js ''image/png'')
      else None)"

definition exampleEnv :: "((jsstring + buffer) list, jsstring) environment" where
  "exampleEnv =
     \<lparr>path_extname = exampleExtname,
      mimeTypes_lookup = exampleLookup,
      toString_utf8 = map ucast,
      JSON_stringify = (\<lambda>s. [0x22] @ s @ [0x22]),
      createHash = (\<lambda>f. []),
      hash_update = (\<lambda>h x. h @ [x]),
      hash_digest = (\<lambda>h enc. concat (map (case_sum id (map ucast)) h)),
      makePathsRelative = (\<lambda>context identifier root. Inr (js ''./'' @ identifier)),
      RuntimeGlobals_module = js ''module'',
      RuntimeGlobals_publicPath = js ''__webpack_require__.p'',
      NAMESPACE_OBJECT_EXPORT = js ''__WEBPACK_NAMESPACE_OBJECT__''\<rparr>"

definition exampleCompilation :: "(unit, jsstring) compilation" where
  "exampleCompilation =
     \<lparr>getAssetPathWithInfo =
        (\<lambda>template d. Inr (template @ pd_runtime d @ pd_chunkGraph d @ resource (pd_module d) @
                             pd_contentHash d @ pd_filename d, ())),
      compiler_context = js ''/app'',
      compiler_root = js ''root''\<rparr>"

definition exampleGenerator :: "unit dataUrlOptions option \<Rightarrow> (unit, jsstring) assetGenerator" where
  "exampleGenerator opts =
     \<lparr>compilation = exampleCompilation, dataUrlOptions = opts, filename = None\<rparr>"

text \<open>A generator whose template engine rejects every template.\<close>

definition throwingGenerator :: "(unit, jsstring) assetGenerator" where
  "throwingGenerator =
     \<lparr>compilation =
        \<lparr>getAssetPathWithInfo = (\<lambda>template d. Inl (Error (js ''Path variable not implemented''))),
         compiler_context = js ''/app'',
         compiler_root = js ''root''\<rparr>,
      dataUrlOptions = None, filename = None\<rparr>"

definition declarative :: "encoding \<Rightarrow> jsstring option \<Rightarrow> unit dataUrlOptions option" where
  "declarative enc mt = Some (Declarative \<lparr>encoding = enc, mimetype = mt\<rparr>)"

definition stringSource :: "jsstring \<Rightarrow> source" where
  "stringSource s = \<lparr>src_source = Inl s, src_buffer = map ucast s, src_size = length s\<rparr>"

definition bufferSource :: "buffer \<Rightarrow> source" where
  "bufferSource b = \<lparr>src_source = Inr b, src_buffer = b, src_size = length b\<rparr>"

definition exampleModule :: "bool \<Rightarrow> source option \<Rightarrow> jsstring \<Rightarrow> unit normalModule" where
  "exampleModule inline content path =
     \<lparr>originalSource = content,
      buildInfo = \<lparr>dataUrl = inline, bi_filename = None, assetInfo = None, fullContentHash = None\<rparr>,
      matchResource = None,
      resource = path,
      nameForCondition = path\<rparr>"

definition exampleContext :: "jsstring \<Rightarrow> jsstring list option \<Rightarrow> jsstring generateContext" where
  "exampleContext type scope =
     \<lparr>runtime = js ''main'',
      chunkGraph = js ''cg'',
      runtimeTemplate =
        \<lparr>outputOptions =
           \<lparr>assetModuleFilename = js ''[hash][ext]'', hashFunction = js ''md4'',
            hashSalt = Some (js ''salt''), hashDigest = js ''hex'', hashDigestLength = 4\<rparr>,
         declareConst = (\<lambda>name val. js ''const '' @ name @ js '' = '' @ val @ js '';'')\<rparr>,
      runtimeRequirements = {},
      requestedType = type,
      concatenationScope = scope\<rparr>"

section \<open>Evaluation of the examples\<close>

lemmas example_defs = exampleEnv_def exampleCompilation_def exampleGenerator_def
  throwingGenerator_def declarative_def
  stringSource_def bufferSource_def exampleModule_def exampleContext_def exampleExtname_def
  exampleLookup_def

lemmas generate_defs = generate_def generateResource_def resolvePath_def moduleWithHash_def
  moduleWithPath_def encodedSource_def encodedContent_def
  exportValue_def fullHashOf_def templateOf_def relativeFilename_def resourceOf_def
  stripDotSlash_def slice0_def resolvedMimeType_def js_or_def truthy_def Let_def
  moduleAfter_def

section \<open>The type and size oracle and the hash contributor\<close>

lemma js_javascript_neq_code: "js ''javascript'' \<noteq> js ''code''"
  by (simp add: js_def)

lemma js_javascript_neq_asset: "js ''javascript'' \<noteq> js ''asset''"
  by (simp add: js_def)

lemma js_dataurl_neq_resource: "js ''data-url'' \<noteq> js ''resource''"
  by (simp add: js_def)

lemma js_dataurl_neq_inline: "js ''data-url'' \<noteq> js ''inline''"
  by (simp add: js_def)



text \<open>
  C7, as stated: \<open>getTypes\<close> returns the set \<open>{"code"}\<close> for a module whose inline flag is
  set. It does not: for the inline example module the result is not \<open>{"code"}\<close> (the
  source's set is \<open>{"javascript"}\<close>).
\<close>

theorem getTypes_code_counterexample:
  "dataUrl (buildInfo (exampleModule True None (js ''/app/a.png''))) \<and>
   getTypes (exampleModule True None (js ''/app/a.png'')) \<noteq> {js ''code''}"
  by (simp add: getTypes_def JS_TYPES_def exampleModule_def js_javascript_neq_code)

text \<open>
  C7, amended: \<open>getTypes\<close> is a function of the module's inline flag only. It returns
  \<open>{"javascript"}\<close> when the flag is set and \<open>{"javascript", "asset"}\<close> otherwise; the two
  sets differ, and two modules with the same flag get equal sets.
\<close>

theorem getTypes_by_inline_flag:
  "getTypes m = (if dataUrl (buildInfo m) then {js ''javascript''} else {js ''javascript'', js ''asset''})
   \<and> {js ''javascript''} \<noteq> {js ''javascript'', js ''asset''}
   \<and> (dataUrl (buildInfo m) = dataUrl (buildInfo m') \<longrightarrow> getTypes m = getTypes m')"
proof -
  have "js ''asset'' \<notin> {js ''javascript''}"
    using js_javascript_neq_asset by simp
  then have "{js ''javascript''} \<noteq> {js ''javascript'', js ''asset''}"
    by blast
  then show ?thesis
    by (simp add: getTypes_def JS_TYPES_def JS_AND_ASSET_TYPES_def)
qed

theorem getTypes_by_inline_flag_witness:
  "dataUrl (buildInfo (exampleModule True None (js ''/app/a.png''))) =
     dataUrl (buildInfo (exampleModule True (Some (stringSource (js ''hello''))) (js ''/app/b.txt'')))
   \<and> getTypes (exampleModule True None (js ''/app/a.png'')) = {js ''javascript''}
   \<and> getTypes (exampleModule True (Some (stringSource (js ''hello''))) (js ''/app/b.txt'')) =
       getTypes (exampleModule True None (js ''/app/a.png''))
   \<and> getTypes (exampleModule False None (js ''/app/a.png'')) = {js ''javascript'', js ''asset''}"
  using getTypes_by_inline_flag
          [of "exampleModule True None (js ''/app/a.png'')"
              "exampleModule True (Some (stringSource (js ''hello''))) (js ''/app/b.txt'')"]
        getTypes_by_inline_flag
          [of "exampleModule False None (js ''/app/a.png'')"
              "exampleModule False None (js ''/app/a.png'')"]
  by (simp add: exampleModule_def getTypes_def JS_TYPES_def)

subsection \<open>Rounding\<close>
















subsection \<open>\<open>getSize\<close>\<close>




text \<open>
  C10: for an inline module whose original content is unavailable, \<open>getSize\<close> with the
  default kind returns 0, not 36.
\<close>

theorem getSize_inline_unavailable:
  assumes "dataUrl (buildInfo m)" and "originalSource m = None" and "type \<noteq> Some (js ''asset'')"
  shows "getSize m type = 0 \<and> getSize m type \<noteq> 36"
  using assms by (simp add: getSize_def)

theorem getSize_inline_unavailable_witness:
  "dataUrl (buildInfo (exampleModule True None (js ''/app/a.png'')))
   \<and> originalSource (exampleModule True None (js ''/app/a.png'')) = None
   \<and> Some (js ''javascript'') \<noteq> Some (js ''asset'')
   \<and> getSize (exampleModule True None (js ''/app/a.png'')) (Some (js ''javascript'')) = 0"
  using getSize_inline_unavailable
          [of "exampleModule True None (js ''/app/a.png'')" "Some (js ''javascript'')"]
  by (simp add: exampleModule_def js_javascript_neq_asset)

text \<open>
  C9, as stated: the token mixed into the hash for an inline module is \<open>"inline"\<close>. It is
  not: with the hash of the example environment, which records its updates,
  \<open>updateHash\<close> on an inline module differs from an update with \<open>"inline"\<close>.
\<close>

theorem updateHash_inline_token_counterexample:
  "dataUrl (buildInfo (exampleModule True None (js ''/app/a.png''))) \<and>
   updateHash exampleEnv [] (exampleModule True None (js ''/app/a.png'')) \<noteq>
     hash_update exampleEnv [] (Inl (js ''inline''))"
  by (simp add: updateHash_def exampleEnv_def exampleModule_def js_dataurl_neq_inline)

text \<open>
  C9, amended: \<open>updateHash\<close> is exactly one update of the caller's hash with one of two
  constant tokens, \<open>"data-url"\<close> for an inline module and \<open>"resource"\<close> otherwise. The two
  tokens differ, and two modules with the same inline flag mix the same token.
\<close>

theorem updateHash_discriminator:
  "updateHash env hash m =
     hash_update env hash (Inl (if dataUrl (buildInfo m) then js ''data-url'' else js ''resource''))
   \<and> js ''data-url'' \<noteq> js ''resource''
   \<and> (dataUrl (buildInfo m) = dataUrl (buildInfo m') \<longrightarrow>
        updateHash env hash m = updateHash env hash m')"
  by (simp add: updateHash_def js_dataurl_neq_resource)

theorem updateHash_discriminator_witness:
  "updateHash exampleEnv [] (exampleModule True None (js ''/app/a.png'')) = [Inl (js ''data-url'')]
   \<and> updateHash exampleEnv [] (exampleModule False None (js ''/app/a.png'')) = [Inl (js ''resource'')]
   \<and> updateHash exampleEnv [] (exampleModule True (Some (bufferSource [7])) (js ''/app/b.png'')) =
       updateHash exampleEnv [] (exampleModule True None (js ''/app/a.png''))"
  using updateHash_discriminator
          [of exampleEnv "[]" "exampleModule True None (js ''/app/a.png'')"
              "exampleModule True (Some (bufferSource [7])) (js ''/app/b.png'')"]
        updateHash_discriminator
          [of exampleEnv "[]" "exampleModule False None (js ''/app/a.png'')"
              "exampleModule False None (js ''/app/a.png'')"]
  by (simp add: exampleEnv_def exampleModule_def updateHash_def)

section \<open>Asset mode\<close>

text \<open>
  C6: when the requested type is \<open>"asset"\<close>, \<open>generate\<close> returns the module's original
  source as it is; the module with its build info, the set of runtime requirements and
  the concatenation scope are unchanged.
\<close>

theorem generate_asset_passthrough:
  assumes "requestedType ctx = js ''asset''"
  shows "generate env this m ctx =
           Inr \<lparr>res_source = Original (originalSource m), res_module = m,
                res_runtimeRequirements = runtimeRequirements ctx,
                res_concatenationScope = concatenationScope ctx\<rparr>"
  using assms by (simp add: generate_def)

theorem generate_asset_passthrough_witness:
  "requestedType (exampleContext (js ''asset'') None) = js ''asset''
   \<and> generate exampleEnv (exampleGenerator None)
        (exampleModule False (Some (bufferSource [1, 2, 3])) (js ''/app/a.png''))
        (exampleContext (js ''asset'') None) =
      Inr \<lparr>res_source = Original (Some (bufferSource [1, 2, 3])),
           res_module = exampleModule False (Some (bufferSource [1, 2, 3])) (js ''/app/a.png''),
           res_runtimeRequirements = {},
           res_concatenationScope = None\<rparr>"
  using generate_asset_passthrough
          [of "exampleContext (js ''asset'') None" exampleEnv "exampleGenerator None"
              "exampleModule False (Some (bufferSource [1, 2, 3])) (js ''/app/a.png'')"]
  by (simp add: exampleContext_def exampleModule_def)

section \<open>Data URL mode\<close>

subsection \<open>Base64\<close>

lemma unat_of_nat16: "k < 65536 \<Longrightarrow> unat (of_nat k :: 16 word) = k"
  by (simp add: unat_of_nat)

lemma hex_value_of_nat:
  "k < 65536 \<Longrightarrow> hex_value (of_nat k) =
     (if 48 \<le> k \<and> k \<le> 57 then Some (k - 48)
      else if 65 \<le> k \<and> k \<le> 70 then Some (k - 55)
      else if 97 \<le> k \<and> k \<le> 102 then Some (k - 87)
      else None)"
  unfolding hex_value_def word_le_nat_alt
  by (simp add: unat_of_nat16)

lemma hex_value_digit: "n < 16 \<Longrightarrow> hex_value (hex_digit n) = Some n"
  unfolding hex_digit_def
  by (simp add: hex_value_of_nat del: of_nat_add)

lemma base64_value_of_nat:
  "k < 65536 \<Longrightarrow> base64_value (of_nat k) =
     (if 65 \<le> k \<and> k \<le> 90 then Some (k - 65)
      else if 97 \<le> k \<and> k \<le> 122 then Some (k - 71)
      else if 48 \<le> k \<and> k \<le> 57 then Some (k + 4)
      else if k = 43 then Some 62
      else if k = 47 then Some 63
      else None)"
  unfolding base64_value_def word_le_nat_alt word_unat_eq_iff
  by (simp add: unat_of_nat16)

lemma base64_char_of_nat:
  "n < 64 \<Longrightarrow> base64_char n = of_nat (if n < 26 then 65 + n
      else if n < 52 then 71 + n
      else if n < 62 then n - 4
      else if n = 62 then 43 else 47)"
  by (simp add: base64_char_def)

lemma base64_value_char: "n < 64 \<Longrightarrow> base64_value (base64_char n) = Some n"
  by (subst base64_char_of_nat, assumption, subst base64_value_of_nat) (auto split: if_splits)

lemma base64_char_not_pad: "n < 64 \<Longrightarrow> base64_char n \<noteq> 0x3D"
proof -
  assume n: "n < 64"
  have "base64_value (0x3D :: 16 word) = None" by (simp add: base64_value_def)
  with base64_value_char [OF n] show ?thesis by auto
qed

lemma of_nat_unat8: "of_nat (unat (a :: 8 word)) = a"
  by simp

lemma unat8_lt: "unat (a :: 8 word) < 256"
  using unsigned_less [of a] by simp


lemma octet1_arith: "b < 256 \<Longrightarrow> a div 4 * 4 + (a mod 4 * 16 + b div 16) div 16 = (a::nat)"
  by (simp add: div_mult2_eq [symmetric])

lemma octet2_arith: "c < 256 \<Longrightarrow> (a mod 4 * 16 + b div 16) mod 16 * 16 + (b mod 16 * 4 + c div 64) div 4 = (b::nat) mod 256"
  using mod_mult2_eq [of b 16 16] by (simp add: div_mult2_eq [symmetric])

lemma octet3_arith: "(b mod 16 * 4 + c div 64) mod 4 * 64 + c mod 64 = (c::nat) mod 256"
  using mod_mult2_eq [of c 64 4] by simp

lemma octet1_pad_arith: "a div 4 * 4 + (a mod 4 * 16) div 16 = (a::nat)"
  by simp

lemma octet2_pad_arith: "(a mod 4 * 16 + b div 16) mod 16 * 16 + (b mod 16 * 4) div 4 = (b::nat) mod 256"
  using mod_mult2_eq [of b 16 16] by simp

lemma digit1_less: "a < 256 \<Longrightarrow> a div 4 < (64::nat)" by simp
lemma digit2_less: "b < 256 \<Longrightarrow> a mod 4 * 16 + b div 16 < (64::nat)"
proof -
  assume "b < 256"
  then have "b div 16 < 16" by simp
  moreover have "a mod 4 < 4" by simp
  ultimately show ?thesis by linarith
qed
lemma digit3_less: "c < 256 \<Longrightarrow> b mod 16 * 4 + c div 64 < (64::nat)"
proof -
  assume "c < 256"
  then have "c div 64 < 4" by simp
  moreover have "b mod 16 < 16" by simp
  ultimately show ?thesis by linarith
qed
lemma digit2_pad_less: "a mod 4 * 16 < (64::nat)"
proof -
  have "a mod 4 < 4" by simp
  then show ?thesis by linarith
qed
lemma digit3_pad_less: "b mod 16 * 4 < (64::nat)"
proof -
  have "b mod 16 < 16" by simp
  then show ?thesis by linarith
qed

lemma octet1:
  fixes a b :: "8 word"
  shows "of_nat (unat a div 4 * 4 + (unat a mod 4 * 16 + unat b div 16) div 16) = a"
  using octet1_arith [OF unat8_lt [of b], of "unat a"] by (simp only: of_nat_unat8)

lemma octet2:
  fixes b c :: "8 word"
  shows "of_nat ((unat a mod 4 * 16 + unat b div 16) mod 16 * 16 +
                 (unat b mod 16 * 4 + unat c div 64) div 4) = b"
  using octet2_arith [OF unat8_lt [of c], of "unat a" "unat b"] unat8_lt [of b]
  by (simp only: of_nat_unat8 mod_less)

lemma octet3:
  fixes c :: "8 word"
  shows "of_nat ((unat b mod 16 * 4 + unat c div 64) mod 4 * 64 + unat c mod 64) = c"
  using octet3_arith [of "unat b" "unat c"] unat8_lt [of c]
  by (simp only: of_nat_unat8 mod_less)

lemma octet1_pad:
  fixes a :: "8 word"
  shows "of_nat (unat a div 4 * 4 + unat a mod 4 * 16 div 16) = a"
  using octet1_pad_arith [of "unat a"] by (simp only: of_nat_unat8)

lemma octet2_pad:
  fixes b :: "8 word"
  shows "of_nat ((unat a mod 4 * 16 + unat b div 16) mod 16 * 16 + unat b mod 16 * 4 div 4) = b"
  using octet2_pad_arith [of "unat a" "unat b"] unat8_lt [of b]
  by (simp only: of_nat_unat8 mod_less)

lemma base64_decode_group:
  assumes "base64_value c1 = Some v1" "base64_value c2 = Some v2"
    "base64_value c3 = Some v3" "base64_value c4 = Some v4" "c4 \<noteq> 0x3D"
  shows "base64_decode (c1 # c2 # c3 # c4 # rest) =
     map_option
       (\<lambda>bs. of_nat (v1 * 4 + v2 div 16) # of_nat (v2 mod 16 * 16 + v3 div 4) #
             of_nat (v3 mod 4 * 64 + v4) # bs)
       (base64_decode rest)"
  using assms by (simp del: of_nat_add of_nat_mult)

lemma base64_decode_pad1:
  assumes "base64_value c1 = Some v1" "base64_value c2 = Some v2"
    "base64_value c3 = Some v3" "c3 \<noteq> 0x3D" "v3 mod 4 = 0"
  shows "base64_decode [c1, c2, c3, 0x3D] =
     Some [of_nat (v1 * 4 + v2 div 16), of_nat (v2 mod 16 * 16 + v3 div 4)]"
  using assms by (simp del: of_nat_add of_nat_mult)

lemma base64_decode_pad2:
  assumes "base64_value c1 = Some v1" "base64_value c2 = Some v2" "v2 mod 16 = 0"
  shows "base64_decode [c1, c2, 0x3D, 0x3D] = Some [of_nat (v1 * 4 + v2 div 16)]"
  using assms by (simp del: of_nat_add of_nat_mult)

lemma base64_roundtrip: "base64_decode (toString_base64 bs) = Some bs"
proof (induction bs rule: toString_base64.induct)
  case 1
  show ?case by simp
next
  case (2 a)
  have "base64_decode [base64_char (unat a div 4), base64_char (unat a mod 4 * 16), 0x3D, 0x3D]
      = Some [of_nat (unat a div 4 * 4 + unat a mod 4 * 16 div 16)]"
    by (rule base64_decode_pad2) (simp_all add: base64_value_char digit1_less digit2_pad_less unat8_lt)
  then show ?case by (simp only: toString_base64.simps octet1_pad)
next
  case (3 a b)
  have "base64_decode [base64_char (unat a div 4), base64_char (unat a mod 4 * 16 + unat b div 16),
          base64_char (unat b mod 16 * 4), 0x3D]
      = Some [of_nat (unat a div 4 * 4 + (unat a mod 4 * 16 + unat b div 16) div 16),
              of_nat ((unat a mod 4 * 16 + unat b div 16) mod 16 * 16 + unat b mod 16 * 4 div 4)]"
    by (rule base64_decode_pad1)
       (simp_all add: base64_value_char base64_char_not_pad digit1_less digit2_less digit3_pad_less unat8_lt)
  then show ?case by (simp only: toString_base64.simps octet1 octet2_pad)
next
  case (4 a b c rest)
  have "base64_decode
          (base64_char (unat a div 4) # base64_char (unat a mod 4 * 16 + unat b div 16) #
           base64_char (unat b mod 16 * 4 + unat c div 64) # base64_char (unat c mod 64) #
           toString_base64 rest)
      = map_option
          (\<lambda>bs. of_nat (unat a div 4 * 4 + (unat a mod 4 * 16 + unat b div 16) div 16) #
                of_nat ((unat a mod 4 * 16 + unat b div 16) mod 16 * 16 +
                        (unat b mod 16 * 4 + unat c div 64) div 4) #
                of_nat ((unat b mod 16 * 4 + unat c div 64) mod 4 * 64 + unat c mod 64) # bs)
          (base64_decode (toString_base64 rest))"
    by (rule base64_decode_group)
       (simp_all add: base64_value_char base64_char_not_pad digit1_less digit2_less digit3_less unat8_lt)
  then show ?case
    by (simp only: toString_base64.simps 4 octet1 octet2 octet3 append.simps option.map)
qed

subsection \<open>Percent-encoding of ASCII text\<close>

lemma not_unescaped_percent: "\<not> uriUnescaped 0x25"
  by (simp add: uriUnescaped_def js_def)

lemma escape_ascii:
  fixes c :: "16 word"
  assumes "c < 0x80"
  shows "escape_code_point (unat c) = [0x25, hex_digit (unat c div 16), hex_digit (unat c mod 16)]"
proof -
  from assms have n: "unat c < 128" by (simp add: word_less_nat_alt)
  have "unat (of_nat (unat c) :: 8 word) = unat c mod 2 ^ LENGTH(8)" by (rule unat_of_nat)
  with n have "unat (of_nat (unat c) :: 8 word) = unat c" by simp
  with n show ?thesis
    by (simp add: escape_code_point_def utf8_octets_def percent_octet_def)
qed

lemma decode_escape_ascii:
  fixes c :: "16 word"
  assumes "c < 0x80"
  shows "percent_decode_ascii (escape_code_point (unat c) @ r) = map_option (Cons c) (percent_decode_ascii r)"
proof -
  from assms have n: "unat c < 128" by (simp add: word_less_nat_alt)
  have "16 * (unat c div 16) + unat c mod 16 = unat c" by simp
  with n show ?thesis
    by (simp add: escape_ascii [OF assms] hex_value_digit)
qed

lemma encodeURI_ascii_roundtrip:
  assumes "\<forall>c\<in>set t. c < 0x80"
  shows "\<exists>p. encodeURI t = Inr p \<and> percent_decode_ascii p = Some t"
  using assms
proof (induction t)
  case Nil
  show ?case by simp
next
  case (Cons c cs)
  then obtain r where r: "encodeURI cs = Inr r" "percent_decode_ascii r = Some cs" by auto
  from Cons.prems have c: "c < 0x80" by simp
  show ?case
  proof (cases "uriUnescaped c")
    case True
    then have "c \<noteq> 0x25" using not_unescaped_percent by auto
    with True r show ?thesis by simp
  next
    case False
    from c have "\<not> (0xDC00 \<le> c \<and> c \<le> 0xDFFF)" "c < 0xD800"
      by (simp_all add: word_less_nat_alt word_le_nat_alt)
    with False r show ?thesis
      by (simp add: decode_escape_ascii [OF c])
  qed
qed


subsection \<open>The declarative variant\<close>







text \<open>
  C3: in DataUrl mode with the declarative encoding \<open>"base64"\<close> and a mimetype that
  resolves, \<open>generate\<close> binds the literal \<open>data:<mimetype>;base64,<payload>\<close>, and
  base64-decoding the payload gives back the bytes \<open>buffer()\<close> of the original content.
\<close>

theorem generate_dataUrl_base64_roundtrip:
  assumes "requestedType ctx \<noteq> js ''asset''" and "dataUrl (buildInfo m)"
    and "dataUrlOptions this = Some (Declarative opts)"
    and "encoding opts = EncString (js ''base64'')"
    and "originalSource m = Some src"
    and "resolvedMimeType env opts m = Some mt"
    and "mt \<noteq> []"
  shows "generate env this m ctx =
           Inr (exportValue env ctx (runtimeRequirements ctx) m
                  (JSON_stringify env
                     (js ''data:'' @ mt @ js '';base64,'' @ toString_base64 (src_buffer src))))
         \<and> base64_decode (toString_base64 (src_buffer src)) = Some (src_buffer src)"
proof -
  have "encoding_truthy (EncString (js ''base64''))"
    by (simp add: encoding_truthy_def js_def)
  with assms have "encodedSource env this m =
      Inr (js ''data:'' @ mt @ js '';base64,'' @ toString_base64 (src_buffer src))"
    by (simp add: encodedSource_def encodedContent_def encoding_toString_def js_def)
  with assms(1,2) show ?thesis
    by (simp add: generate_def base64_roundtrip)
qed

theorem generate_dataUrl_base64_roundtrip_witness:
  "generate exampleEnv (exampleGenerator (declarative (EncString (js ''base64'')) None))
     (exampleModule True (Some (bufferSource [0x89, 0x50, 0x4E])) (js ''/app/a.png''))
     (exampleContext (js ''javascript'') None) =
   Inr \<lparr>res_source = RawSource (js ''module.exports = \"data:image/png;base64,iVBO\";''),
        res_module = exampleModule True (Some (bufferSource [0x89, 0x50, 0x4E])) (js ''/app/a.png''),
        res_runtimeRequirements = {js ''module''},
        res_concatenationScope = None\<rparr>
   \<and> base64_decode (js ''iVBO'') = Some [0x89, 0x50, 0x4E]"
proof -
  let ?g = "exampleGenerator (declarative (EncString (js ''base64'')) None)"
  let ?m = "exampleModule True (Some (bufferSource [0x89, 0x50, 0x4E])) (js ''/app/a.png'')"
  let ?ctx = "exampleContext (js ''javascript'') None"
  have h1: "requestedType ?ctx \<noteq> js ''asset''"
    by (simp add: exampleContext_def js_def)
  have h2: "dataUrl (buildInfo ?m)"
    by (simp add: exampleModule_def)
  have h3: "dataUrlOptions ?g =
      Some (Declarative \<lparr>encoding = EncString (js ''base64''), mimetype = None\<rparr>)"
    by (simp add: exampleGenerator_def declarative_def)
  have h4: "encoding \<lparr>encoding = EncString (js ''base64''), mimetype = None\<rparr> = EncString (js ''base64'')"
    by simp
  have h5: "originalSource ?m = Some (bufferSource [0x89, 0x50, 0x4E])"
    by (simp add: exampleModule_def)
  have h6: "resolvedMimeType exampleEnv \<lparr>encoding = EncString (js ''base64''), mimetype = None\<rparr> ?m
      = Some (js ''image/png'')"
    by (simp add: resolvedMimeType_def js_or_def truthy_def example_defs js_def)
  have h7: "js ''image/png'' \<noteq> []"
    by (simp add: js_def)
  have b: "toString_base64 (src_buffer (bufferSource [0x89, 0x50, 0x4E])) = js ''iVBO''"
    by (simp add: bufferSource_def base64_char_def js_def)
  from generate_dataUrl_base64_roundtrip [OF h1 h2 h3 h4 h5 h6 h7]
  show ?thesis
    unfolding b by (simp add: exportValue_def example_defs js_def)
qed

text \<open>
  C2: in DataUrl mode with the declarative encoding \<open>false\<close> and a mimetype that
  resolves, let \<open>t\<close> be the text of the original content (the string \<open>source()\<close>
  returns, or the UTF-8 reading of the Buffer it returns). If \<open>t\<close> is ASCII, \<open>generate\<close>
  binds the literal \<open>data:<mimetype>,<payload>\<close>, and percent-decoding the payload gives
  back \<open>t\<close>.
\<close>

theorem generate_dataUrl_percent_roundtrip:
  assumes "requestedType ctx \<noteq> js ''asset''" and "dataUrl (buildInfo m)"
    and "dataUrlOptions this = Some (Declarative opts)"
    and "encoding opts = EncBool False"
    and "originalSource m = Some src"
    and "t = (case src_source src of Inl s \<Rightarrow> s | Inr b \<Rightarrow> toString_utf8 env b)"
    and "\<forall>c\<in>set t. c < 0x80"
    and "resolvedMimeType env opts m = Some mt"
    and "mt \<noteq> []"
  shows "\<exists>payload. encodeURI t = Inr payload
           \<and> generate env this m ctx =
               Inr (exportValue env ctx (runtimeRequirements ctx) m
                      (JSON_stringify env (js ''data:'' @ mt @ js '','' @ payload)))
           \<and> percent_decode_ascii payload = Some t"
proof -
  from encodeURI_ascii_roundtrip [OF assms(7)]
  obtain p where p: "encodeURI t = Inr p" "percent_decode_ascii p = Some t" by blast
  have ne: "EncBool False \<noteq> EncString (js ''base64'')" by simp
  from assms(5,6) p(1) have "encodedContent env (EncBool False) (originalSource m) = Inr p"
    by (simp add: encodedContent_def split: sum.splits)
  with assms have "encodedSource env this m = Inr (js ''data:'' @ mt @ js '','' @ p)"
    by (simp add: encodedSource_def encoding_truthy_def)
  with assms(1,2) p show ?thesis
    by (simp add: generate_def)
qed

theorem generate_dataUrl_percent_roundtrip_witness:
  "generate exampleEnv (exampleGenerator (declarative (EncBool False) None))
     (exampleModule True (Some (stringSource (js ''hello''))) (js ''/app/a.txt''))
     (exampleContext (js ''javascript'') None) =
   Inr \<lparr>res_source = RawSource (js ''module.exports = \"data:text/plain,hello\";''),
        res_module = exampleModule True (Some (stringSource (js ''hello''))) (js ''/app/a.txt''),
        res_runtimeRequirements = {js ''module''},
        res_concatenationScope = None\<rparr>
   \<and> percent_decode_ascii (js ''hello'') = Some (js ''hello'')"
proof -
  let ?g = "exampleGenerator (declarative (EncBool False) None)"
  let ?m = "exampleModule True (Some (stringSource (js ''hello''))) (js ''/app/a.txt'')"
  let ?ctx = "exampleContext (js ''javascript'') None"
  have h1: "requestedType ?ctx \<noteq> js ''asset''"
    by (simp add: exampleContext_def js_def)
  have h2: "dataUrl (buildInfo ?m)"
    by (simp add: exampleModule_def)
  have h3: "dataUrlOptions ?g = Some (Declarative \<lparr>encoding = EncBool False, mimetype = None\<rparr>)"
    by (simp add: exampleGenerator_def declarative_def)
  have h4: "encoding \<lparr>encoding = EncBool False, mimetype = None\<rparr> = EncBool False"
    by simp
  have h5: "originalSource ?m = Some (stringSource (js ''hello''))"
    by (simp add: exampleModule_def)
  have h6: "js ''hello'' = (case src_source (stringSource (js ''hello'')) of
                Inl s \<Rightarrow> s | Inr b \<Rightarrow> toString_utf8 exampleEnv b)"
    by (simp add: stringSource_def)
  have h7: "\<forall>c\<in>set (js ''hello''). c < 0x80"
    by (simp add: js_def)
  have h8: "resolvedMimeType exampleEnv \<lparr>encoding = EncBool False, mimetype = None\<rparr> ?m
      = Some (js ''text/plain'')"
    by (simp add: resolvedMimeType_def js_or_def truthy_def example_defs js_def)
  have h9: "js ''text/plain'' \<noteq> []"
    by (simp add: js_def)
  have e: "encodeURI (js ''hello'') = Inr (js ''hello'')"
    by (simp add: js_def uriUnescaped_def)
  from generate_dataUrl_percent_roundtrip [OF h1 h2 h3 h4 h5 h6 h7 h8 h9]
  show ?thesis
    unfolding e by (auto simp: exportValue_def example_defs js_def)
qed




section \<open>Resource mode\<close>

lemma generate_resource:
  assumes "requestedType ctx \<noteq> js ''asset''" and "\<not> dataUrl (buildInfo m)"
  shows "generate env this m ctx = generateResource env this m ctx"
  using assms by (simp add: generate_def)

lemma generateResource_no_content:
  assumes "originalSource m = None"
  shows "generateResource env this m ctx = Inl (TypeError, m)"
  using assms by (simp add: generateResource_def)

lemma generateResource_throws:
  assumes "originalSource m = Some src"
    and "resolvePath env this m ctx (src_buffer src) = Inl e"
  shows "generateResource env this m ctx =
           Inl (e, moduleWithHash m (fullHashOf env (outputOptions (runtimeTemplate ctx)) (src_buffer src)))"
  using assms by (simp add: generateResource_def)

lemma generateResource_returns:
  assumes "originalSource m = Some src"
    and "resolvePath env this m ctx (src_buffer src) = Inr (path, info)"
  shows "\<exists>r. generateResource env this m ctx = Inr r \<and>
           res_module r =
             moduleWithPath
               (moduleWithHash m (fullHashOf env (outputOptions (runtimeTemplate ctx)) (src_buffer src)))
               path info"
  using assms by (simp add: generateResource_def exportValue_def Let_def split: option.splits)

lemma exportValue_module: "res_module (exportValue env ctx reqs m v) = m"
  by (simp add: exportValue_def split: option.splits)

lemma moduleAfter_dataUrl:
  assumes "requestedType ctx = js ''asset'' \<or> dataUrl (buildInfo m)"
  shows "moduleAfter (generate env this m ctx) = m"
  using assms
  by (auto simp: generate_def moduleAfter_def exportValue_module split: sum.splits)

lemma buildInfo_moduleWithHash:
  "buildInfo (moduleWithHash m h) = (buildInfo m)\<lparr>fullContentHash := Some h\<rparr>"
  by (simp add: moduleWithHash_def)

lemma buildInfo_moduleWithPath:
  "buildInfo (moduleWithPath m path info) =
     (buildInfo m)\<lparr>bi_filename := Some path, assetInfo := Some info\<rparr>"
  by (simp add: moduleWithPath_def)

lemma resolved_returns:
  assumes "requestedType ctx \<noteq> js ''asset''" and "\<not> dataUrl (buildInfo m)"
    and "originalSource m = Some src"
    and "resolvePath env this m ctx (src_buffer src) = Inr (path, info)"
  shows "(\<exists>r. generate env this m ctx = Inr r)"
    and "resolvedFilename (generate env this m ctx) = Some path"
    and "resolvedFullHash (generate env this m ctx) =
           Some (fullHashOf env (outputOptions (runtimeTemplate ctx)) (src_buffer src))"
  using generateResource_returns [OF assms(3,4)]
  by (auto simp: generate_resource [OF assms(1,2)] resolvedFilename_def resolvedFullHash_def
        moduleAfter_def buildInfo_moduleWithPath buildInfo_moduleWithHash)

lemma resolved_throws:
  assumes "requestedType ctx \<noteq> js ''asset''" and "\<not> dataUrl (buildInfo m)"
    and "originalSource m = Some src"
    and "resolvePath env this m ctx (src_buffer src) = Inl e"
  shows "generate env this m ctx =
           Inl (e, moduleWithHash m (fullHashOf env (outputOptions (runtimeTemplate ctx)) (src_buffer src)))"
    and "resolvedFilename (generate env this m ctx) = bi_filename (buildInfo m)"
    and "resolvedFullHash (generate env this m ctx) =
           Some (fullHashOf env (outputOptions (runtimeTemplate ctx)) (src_buffer src))"
  using generateResource_throws [OF assms(3,4)]
  by (simp_all add: generate_resource [OF assms(1,2)] resolvedFilename_def resolvedFullHash_def
        moduleAfter_def buildInfo_moduleWithHash)

lemma resolvedFullHash_resource:
  assumes "requestedType ctx \<noteq> js ''asset''" and "\<not> dataUrl (buildInfo m)"
    and "originalSource m = Some src"
  shows "resolvedFullHash (generate env this m ctx) =
           Some (fullHashOf env (outputOptions (runtimeTemplate ctx)) (src_buffer src))"
proof (cases "resolvePath env this m ctx (src_buffer src)")
  case (Inl e)
  from resolved_throws(3) [OF assms Inl] show ?thesis .
next
  case (Inr p)
  obtain path info where "p = (path, info)" by (cases p)
  with Inr resolved_returns(3) [OF assms] show ?thesis by simp
qed

text \<open>
  C5, as stated: after a \<open>generate\<close> call the three build-info fields are never partially
  set. With a template engine that throws, a Resource-mode call on a module whose three
  fields are unset ends with the full content hash written and the file name and the
  asset info unset.
\<close>

theorem generate_partial_buildInfo_counterexample:
  "generate exampleEnv throwingGenerator
     (exampleModule False (Some (bufferSource [1, 2, 3])) (js ''/app/a.png''))
     (exampleContext (js ''javascript'') None) =
   Inl (Error (js ''Path variable not implemented''),
        (exampleModule False (Some (bufferSource [1, 2, 3])) (js ''/app/a.png''))
          \<lparr>buildInfo := \<lparr>dataUrl = False, bi_filename = None, assetInfo = None,
                         fullContentHash = Some (js ''salt'' @ [1, 2, 3])\<rparr>\<rparr>)
   \<and> buildInfoUnset (buildInfo (exampleModule False (Some (bufferSource [1, 2, 3])) (js ''/app/a.png'')))
   \<and> \<not> buildInfoUnset (buildInfo (moduleAfter (generate exampleEnv throwingGenerator
          (exampleModule False (Some (bufferSource [1, 2, 3])) (js ''/app/a.png''))
          (exampleContext (js ''javascript'') None))))
   \<and> \<not> buildInfoSet (buildInfo (moduleAfter (generate exampleEnv throwingGenerator
          (exampleModule False (Some (bufferSource [1, 2, 3])) (js ''/app/a.png''))
          (exampleContext (js ''javascript'') None))))"
  by (simp add: generate_defs relativeFilename_def example_defs buildInfoUnset_def buildInfoSet_def js_def)

text \<open>
  C5, amended: in Asset and DataUrl mode \<open>module.buildInfo\<close> is after the call, returned or
  thrown, as it was before. In Resource mode a call on a module without original content
  throws before it writes; on a module with content it writes the full content hash,
  and then, if the file name is resolved, returns with the file name and the asset info
  written too, and if resolving the file name throws, throws with these two fields as
  they were. So a module whose three fields are all unset or all set is in one of these
  two states after every call that returns.
\<close>

theorem generate_buildInfo_writes:
  "(requestedType ctx = js ''asset'' \<or> dataUrl (buildInfo m) \<longrightarrow>
      buildInfo (moduleAfter (generate env this m ctx)) = buildInfo m)
   \<and> (requestedType ctx \<noteq> js ''asset'' \<and> \<not> dataUrl (buildInfo m) \<and> originalSource m = None \<longrightarrow>
        generate env this m ctx = Inl (TypeError, m))
   \<and> (requestedType ctx \<noteq> js ''asset'' \<and> \<not> dataUrl (buildInfo m) \<and> originalSource m = Some src \<longrightarrow>
        (case resolvePath env this m ctx (src_buffer src) of
           Inr (path, info) \<Rightarrow>
             (\<exists>r. generate env this m ctx = Inr r
                \<and> buildInfo (res_module r) =
                    (buildInfo m)
                      \<lparr>fullContentHash :=
                         Some (fullHashOf env (outputOptions (runtimeTemplate ctx)) (src_buffer src)),
                       bi_filename := Some path, assetInfo := Some info\<rparr>
                \<and> buildInfoSet (buildInfo (res_module r)))
         | Inl e \<Rightarrow>
             (\<exists>m'. generate env this m ctx = Inl (e, m')
                \<and> buildInfo m' =
                    (buildInfo m)
                      \<lparr>fullContentHash :=
                         Some (fullHashOf env (outputOptions (runtimeTemplate ctx)) (src_buffer src))\<rparr>)))
   \<and> (\<forall>r. generate env this m ctx = Inr r \<longrightarrow>
          buildInfoUnset (buildInfo m) \<or> buildInfoSet (buildInfo m) \<longrightarrow>
          buildInfoUnset (buildInfo (res_module r)) \<or> buildInfoSet (buildInfo (res_module r)))"
proof -
  let ?h = "fullHashOf env (outputOptions (runtimeTemplate ctx)) (src_buffer src)"
  have unchanged: "buildInfo (moduleAfter (generate env this m ctx)) = buildInfo m"
    if "requestedType ctx = js ''asset'' \<or> dataUrl (buildInfo m)"
    using that by (simp add: moduleAfter_dataUrl)
  have no_content: "generate env this m ctx = Inl (TypeError, m)"
    if "requestedType ctx \<noteq> js ''asset''" and "\<not> dataUrl (buildInfo m)"
      and "originalSource m = None"
    using that by (simp add: generate_resource generateResource_no_content)
  have content:
    "case resolvePath env this m ctx (src_buffer src) of
       Inr (path, info) \<Rightarrow>
         (\<exists>r. generate env this m ctx = Inr r
            \<and> buildInfo (res_module r) =
                (buildInfo m)\<lparr>fullContentHash := Some ?h, bi_filename := Some path,
                               assetInfo := Some info\<rparr>
            \<and> buildInfoSet (buildInfo (res_module r)))
     | Inl e \<Rightarrow>
         (\<exists>m'. generate env this m ctx = Inl (e, m')
            \<and> buildInfo m' = (buildInfo m)\<lparr>fullContentHash := Some ?h\<rparr>)"
    if t: "requestedType ctx \<noteq> js ''asset''" and d: "\<not> dataUrl (buildInfo m)"
      and s: "originalSource m = Some src"
  proof (cases "resolvePath env this m ctx (src_buffer src)")
    case (Inl e)
    from generateResource_throws [OF s Inl] show ?thesis
      by (simp add: Inl generate_resource [OF t d] buildInfo_moduleWithHash)
  next
    case (Inr p)
    obtain path info where p: "p = (path, info)" by (cases p)
    from generateResource_returns [OF s Inr [unfolded p]] show ?thesis
      by (auto simp: Inr p generate_resource [OF t d] buildInfo_moduleWithHash
            buildInfo_moduleWithPath buildInfoSet_def)
  qed
  have inv: "buildInfoUnset (buildInfo (res_module r)) \<or> buildInfoSet (buildInfo (res_module r))"
    if r: "generate env this m ctx = Inr r"
      and b: "buildInfoUnset (buildInfo m) \<or> buildInfoSet (buildInfo m)" for r
  proof (cases "requestedType ctx = js ''asset'' \<or> dataUrl (buildInfo m)")
    case True
    from unchanged [OF True] r b show ?thesis by (simp add: moduleAfter_def)
  next
    case False
    then have t: "requestedType ctx \<noteq> js ''asset''" and d: "\<not> dataUrl (buildInfo m)" by simp_all
    from r have g: "generateResource env this m ctx = Inr r"
      by (simp add: generate_resource [OF t d])
    then obtain s where s: "originalSource m = Some s"
      by (cases "originalSource m") (simp_all add: generateResource_no_content)
    show ?thesis
    proof (cases "resolvePath env this m ctx (src_buffer s)")
      case (Inl e)
      from generateResource_throws [OF s Inl] g show ?thesis by simp
    next
      case (Inr p)
      obtain path info where p: "p = (path, info)" by (cases p)
      from generateResource_returns [OF s Inr [unfolded p]] g show ?thesis
        by (auto simp: buildInfo_moduleWithPath buildInfo_moduleWithHash buildInfoSet_def)
    qed
  qed
  from unchanged no_content content inv show ?thesis by blast
qed


theorem generate_buildInfo_writes_witness:
  "(\<exists>r. generate exampleEnv (exampleGenerator None)
          (exampleModule False (Some (bufferSource [1, 2, 3])) (js ''/app/a.png''))
          (exampleContext (js ''javascript'') None) = Inr r
        \<and> buildInfoSet (buildInfo (res_module r)))
   \<and> buildInfoUnset (buildInfo (moduleAfter
         (generate exampleEnv (exampleGenerator (declarative (EncString (js ''base64'')) None))
            (exampleModule True (Some (bufferSource [1, 2, 3])) (js ''/app/a.png''))
            (exampleContext (js ''javascript'') None))))
   \<and> (\<exists>m'. generate exampleEnv throwingGenerator
          (exampleModule False (Some (bufferSource [1, 2, 3])) (js ''/app/a.png''))
          (exampleContext (js ''javascript'') None) =
            Inl (Error (js ''Path variable not implemented''), m')
        \<and> buildInfo m' =
            \<lparr>dataUrl = False, bi_filename = None, assetInfo = None,
             fullContentHash = Some (js ''salt'' @ [1, 2, 3])\<rparr>)"
proof -
  let ?m1 = "exampleModule False (Some (bufferSource [1, 2, 3])) (js ''/app/a.png'')"
  let ?m2 = "exampleModule True (Some (bufferSource [1, 2, 3])) (js ''/app/a.png'')"
  let ?g2 = "exampleGenerator (declarative (EncString (js ''base64'')) None)"
  let ?ctx = "exampleContext (js ''javascript'') None"
  have h1: "requestedType ?ctx \<noteq> js ''asset''"
    by (simp add: exampleContext_def js_def)
  have h2: "\<not> dataUrl (buildInfo ?m1)" "originalSource ?m1 = Some (bufferSource [1, 2, 3])"
    by (simp_all add: exampleModule_def)
  have h3: "dataUrl (buildInfo ?m2)" "buildInfoUnset (buildInfo ?m2)"
    by (simp_all add: exampleModule_def buildInfoUnset_def)
  have p1: "resolvePath exampleEnv (exampleGenerator None) ?m1 ?ctx (src_buffer (bufferSource [1, 2, 3]))
      = Inr (js ''[hash][ext]maincg/app/a.pngsalt/app/a.png'', ())"
    by (simp add: generate_defs relativeFilename_def example_defs js_def)
  have p2: "resolvePath exampleEnv throwingGenerator ?m1 ?ctx (src_buffer (bufferSource [1, 2, 3]))
      = Inl (Error (js ''Path variable not implemented''))"
    by (simp add: generate_defs relativeFilename_def example_defs js_def)
  have h: "fullHashOf exampleEnv (outputOptions (runtimeTemplate ?ctx)) (src_buffer (bufferSource [1, 2, 3]))
      = js ''salt'' @ [1, 2, 3]"
    by (simp add: fullHashOf_def example_defs js_def)
  have b: "buildInfo ?m1 = \<lparr>dataUrl = False, bi_filename = None, assetInfo = None, fullContentHash = None\<rparr>"
    by (simp add: exampleModule_def)
  from generate_buildInfo_writes
         [of ?ctx ?m1 exampleEnv "exampleGenerator None" "bufferSource [1, 2, 3]"] h1 h2
  have "\<exists>r. generate exampleEnv (exampleGenerator None) ?m1 ?ctx = Inr r
          \<and> buildInfoSet (buildInfo (res_module r))"
    unfolding p1 by auto
  moreover
  from generate_buildInfo_writes [of ?ctx ?m2 exampleEnv ?g2] h3
  have "buildInfoUnset (buildInfo (moduleAfter (generate exampleEnv ?g2 ?m2 ?ctx)))"
    by simp
  moreover
  from generate_buildInfo_writes
         [of ?ctx ?m1 exampleEnv throwingGenerator "bufferSource [1, 2, 3]"] h1 h2
  have "\<exists>m'. generate exampleEnv throwingGenerator ?m1 ?ctx =
            Inl (Error (js ''Path variable not implemented''), m')
        \<and> buildInfo m' =
            \<lparr>dataUrl = False, bi_filename = None, assetInfo = None,
             fullContentHash = Some (js ''salt'' @ [1, 2, 3])\<rparr>"
    unfolding p2 h b by auto
  ultimately show ?thesis by blast
qed

text \<open>
  C1, as stated: identical bytes, hash settings, file name template and relative path
  give the same file name. They do not: \<open>generate\<close> also hands the runtime, the chunk
  graph and the module to \<open>getAssetPathWithInfo\<close>, and with the example template engine,
  which uses them, a call that differs from the first only in the runtime, only in the
  chunk graph, or only in the \<open>resource\<close> of a module matched to the same
  \<open>matchResource\<close>, stores another file name.
\<close>

theorem generate_filename_counterexample:
  "resolvedFilename (generate exampleEnv (exampleGenerator None)
      (exampleModule False (Some (bufferSource [1, 2, 3])) (js ''/app/a.png''))
      (exampleContext (js ''javascript'') None))
     = Some (js ''[hash][ext]maincg/app/a.pngsalt/app/a.png'')
   \<and> resolvedFilename (generate exampleEnv (exampleGenerator None)
      (exampleModule False (Some (bufferSource [1, 2, 3])) (js ''/app/a.png''))
      ((exampleContext (js ''javascript'') None)\<lparr>runtime := js ''other''\<rparr>))
     = Some (js ''[hash][ext]othercg/app/a.pngsalt/app/a.png'')
   \<and> resolvedFilename (generate exampleEnv (exampleGenerator None)
      (exampleModule False (Some (bufferSource [1, 2, 3])) (js ''/app/a.png''))
      ((exampleContext (js ''javascript'') None)\<lparr>chunkGraph := js ''cg2''\<rparr>))
     = Some (js ''[hash][ext]maincg2/app/a.pngsalt/app/a.png'')
   \<and> resolvedFilename (generate exampleEnv (exampleGenerator None)
      ((exampleModule False (Some (bufferSource [1, 2, 3])) (js ''/app/b.png''))
         \<lparr>matchResource := Some (js ''/app/a.png'')\<rparr>)
      (exampleContext (js ''javascript'') None))
     = Some (js ''[hash][ext]maincg/app/b.pngsalt/app/a.png'')
   \<and> relativeFilename exampleEnv (exampleGenerator None)
        ((exampleModule False (Some (bufferSource [1, 2, 3])) (js ''/app/b.png''))
           \<lparr>matchResource := Some (js ''/app/a.png'')\<rparr>)
     = relativeFilename exampleEnv (exampleGenerator None)
        (exampleModule False (Some (bufferSource [1, 2, 3])) (js ''/app/a.png''))
   \<and> js ''[hash][ext]maincg/app/a.pngsalt/app/a.png'' \<noteq> js ''[hash][ext]othercg/app/a.pngsalt/app/a.png''
   \<and> js ''[hash][ext]maincg/app/a.pngsalt/app/a.png'' \<noteq> js ''[hash][ext]maincg2/app/a.pngsalt/app/a.png''
   \<and> js ''[hash][ext]maincg/app/a.pngsalt/app/a.png'' \<noteq> js ''[hash][ext]maincg/app/b.pngsalt/app/a.png''"
  by (simp add: resolvedFilename_def generate_defs relativeFilename_def example_defs js_def)

text \<open>
  C1, amended: two Resource-mode calls on identical bytes with identical hash function,
  salt and digest encoding store the same full content hash. If, in addition, the
  digest length, the file name template, the relative path and what else
  \<open>getAssetPathWithInfo\<close> is given (the compilation, the module, the runtime and the
  chunk graph) are identical, the file name in the build info is the same after both
  calls; and where resolving the file name returns, both calls return and the file
  name is set.
\<close>

theorem generate_resource_deterministic:
  assumes "requestedType ctx1 \<noteq> js ''asset''" and "requestedType ctx2 \<noteq> js ''asset''"
    and "\<not> dataUrl (buildInfo m1)" and "\<not> dataUrl (buildInfo m2)"
    and "originalSource m1 = Some s1" and "originalSource m2 = Some s2"
    and "src_buffer s1 = src_buffer s2"
    and "hashFunction (outputOptions (runtimeTemplate ctx1)) = hashFunction (outputOptions (runtimeTemplate ctx2))"
    and "hashSalt (outputOptions (runtimeTemplate ctx1)) = hashSalt (outputOptions (runtimeTemplate ctx2))"
    and "hashDigest (outputOptions (runtimeTemplate ctx1)) = hashDigest (outputOptions (runtimeTemplate ctx2))"
  shows "resolvedFullHash (generate env this1 m1 ctx1) =
           Some (fullHashOf env (outputOptions (runtimeTemplate ctx1)) (src_buffer s1))
         \<and> resolvedFullHash (generate env this2 m2 ctx2) = resolvedFullHash (generate env this1 m1 ctx1)
         \<and> (hashDigestLength (outputOptions (runtimeTemplate ctx1)) =
               hashDigestLength (outputOptions (runtimeTemplate ctx2))
             \<and> templateOf this1 (outputOptions (runtimeTemplate ctx1)) =
                 templateOf this2 (outputOptions (runtimeTemplate ctx2))
             \<and> relativeFilename env this1 m1 = relativeFilename env this2 m2
             \<and> compilation this1 = compilation this2
             \<and> m1 = m2 \<and> runtime ctx1 = runtime ctx2 \<and> chunkGraph ctx1 = chunkGraph ctx2 \<longrightarrow>
              resolvedFilename (generate env this2 m2 ctx2) = resolvedFilename (generate env this1 m1 ctx1)
              \<and> ((\<exists>p. resolvePath env this1 m1 ctx1 (src_buffer s1) = Inr p) \<longrightarrow>
                   resolvedFilename (generate env this1 m1 ctx1) \<noteq> None
                   \<and> (\<exists>r. generate env this1 m1 ctx1 = Inr r)
                   \<and> (\<exists>r. generate env this2 m2 ctx2 = Inr r)))"
proof -
  have h: "fullHashOf env (outputOptions (runtimeTemplate ctx2)) (src_buffer s2) =
           fullHashOf env (outputOptions (runtimeTemplate ctx1)) (src_buffer s1)"
    using assms(7-10) by (simp add: fullHashOf_def)
  note f1 = resolvedFullHash_resource [OF assms(1,3,5), of env this1]
  note f2 = resolvedFullHash_resource [OF assms(2,4,6), of env this2]
  have same: "resolvedFilename (generate env this2 m2 ctx2) = resolvedFilename (generate env this1 m1 ctx1)
       \<and> ((\<exists>p. resolvePath env this1 m1 ctx1 (src_buffer s1) = Inr p) \<longrightarrow>
             resolvedFilename (generate env this1 m1 ctx1) \<noteq> None
             \<and> (\<exists>r. generate env this1 m1 ctx1 = Inr r)
             \<and> (\<exists>r. generate env this2 m2 ctx2 = Inr r))"
    if l: "hashDigestLength (outputOptions (runtimeTemplate ctx1)) =
             hashDigestLength (outputOptions (runtimeTemplate ctx2))"
      and t: "templateOf this1 (outputOptions (runtimeTemplate ctx1)) =
                templateOf this2 (outputOptions (runtimeTemplate ctx2))"
      and rel: "relativeFilename env this1 m1 = relativeFilename env this2 m2"
      and c: "compilation this1 = compilation this2"
      and m: "m1 = m2" and rt: "runtime ctx1 = runtime ctx2"
      and cg: "chunkGraph ctx1 = chunkGraph ctx2"
  proof -
    have p: "resolvePath env this2 m2 ctx2 (src_buffer s2) = resolvePath env this1 m1 ctx1 (src_buffer s1)"
      unfolding resolvePath_def Let_def h using l t rel c rt cg
      by (simp add: m split: sum.splits)
    show ?thesis
    proof (cases "resolvePath env this1 m1 ctx1 (src_buffer s1)")
      case (Inl e)
      from resolved_throws(2) [OF assms(1,3,5) Inl] resolved_throws(2) [OF assms(2,4,6) Inl [folded p]]
      show ?thesis by (simp add: Inl [unfolded m] m)
    next
      case (Inr q)
      obtain path info where q: "q = (path, info)" by (cases q)
      note r1 = resolved_returns [OF assms(1,3,5) Inr [unfolded q]]
      note r2 = resolved_returns [OF assms(2,4,6) Inr [unfolded q, folded p]]
      from r1 r2 show ?thesis by simp
    qed
  qed
  have "resolvedFullHash (generate env this2 m2 ctx2) = resolvedFullHash (generate env this1 m1 ctx1)"
    by (simp only: f1 f2 h)
  with f1 same show ?thesis by blast
qed

theorem generate_resource_deterministic_witness:
  "resolvedFullHash (generate exampleEnv (exampleGenerator None)
      (exampleModule False (Some (bufferSource [1, 2, 3])) (js ''/app/a.png''))
      (exampleContext (js ''javascript'') None)) = Some (js ''salt'' @ [1, 2, 3])
   \<and> resolvedFullHash (generate exampleEnv (exampleGenerator (declarative (EncBool False) None))
      (exampleModule False (Some (bufferSource [1, 2, 3])) (js ''/app/a.png''))
      (exampleContext (js ''other'') (Some []))) = Some (js ''salt'' @ [1, 2, 3])
   \<and> resolvedFilename (generate exampleEnv (exampleGenerator None)
      (exampleModule False (Some (bufferSource [1, 2, 3])) (js ''/app/a.png''))
      (exampleContext (js ''javascript'') None))
     = Some (js ''[hash][ext]maincg/app/a.pngsalt/app/a.png'')
   \<and> resolvedFilename (generate exampleEnv (exampleGenerator (declarative (EncBool False) None))
      (exampleModule False (Some (bufferSource [1, 2, 3])) (js ''/app/a.png''))
      (exampleContext (js ''other'') (Some [])))
     = Some (js ''[hash][ext]maincg/app/a.pngsalt/app/a.png'')
   \<and> (\<exists>r. generate exampleEnv (exampleGenerator (declarative (EncBool False) None))
      (exampleModule False (Some (bufferSource [1, 2, 3])) (js ''/app/a.png''))
      (exampleContext (js ''other'') (Some [])) = Inr r)"
proof -
  let ?g1 = "exampleGenerator None"
  let ?g2 = "exampleGenerator (declarative (EncBool False) None)"
  let ?m = "exampleModule False (Some (bufferSource [1, 2, 3])) (js ''/app/a.png'')"
  let ?c1 = "exampleContext (js ''javascript'') None"
  let ?c2 = "exampleContext (js ''other'') (Some [])"
  have t: "requestedType ?c1 \<noteq> js ''asset''" "requestedType ?c2 \<noteq> js ''asset''"
    by (simp_all add: exampleContext_def js_def)
  have d: "\<not> dataUrl (buildInfo ?m)"
    and s: "originalSource ?m = Some (bufferSource [1, 2, 3])"
    by (simp_all add: exampleModule_def)
  have o: "hashFunction (outputOptions (runtimeTemplate ?c1)) = hashFunction (outputOptions (runtimeTemplate ?c2))"
      "hashSalt (outputOptions (runtimeTemplate ?c1)) = hashSalt (outputOptions (runtimeTemplate ?c2))"
      "hashDigest (outputOptions (runtimeTemplate ?c1)) = hashDigest (outputOptions (runtimeTemplate ?c2))"
    by (simp_all add: exampleContext_def)
  have e: "hashDigestLength (outputOptions (runtimeTemplate ?c1)) =
             hashDigestLength (outputOptions (runtimeTemplate ?c2))
           \<and> templateOf ?g1 (outputOptions (runtimeTemplate ?c1)) =
               templateOf ?g2 (outputOptions (runtimeTemplate ?c2))
           \<and> relativeFilename exampleEnv ?g1 ?m = relativeFilename exampleEnv ?g2 ?m
           \<and> compilation ?g1 = compilation ?g2
           \<and> ?m = ?m \<and> runtime ?c1 = runtime ?c2 \<and> chunkGraph ?c1 = chunkGraph ?c2"
    by (simp add: exampleContext_def exampleGenerator_def templateOf_def relativeFilename_def)
  have h: "fullHashOf exampleEnv (outputOptions (runtimeTemplate ?c1)) (src_buffer (bufferSource [1, 2, 3]))
             = js ''salt'' @ [1, 2, 3]"
    by (simp add: fullHashOf_def example_defs js_def)
  have p: "resolvePath exampleEnv ?g1 ?m ?c1 (src_buffer (bufferSource [1, 2, 3]))
      = Inr (js ''[hash][ext]maincg/app/a.pngsalt/app/a.png'', ())"
    by (simp add: generate_defs relativeFilename_def example_defs js_def)
  have f: "resolvedFilename (generate exampleEnv ?g1 ?m ?c1)
             = Some (js ''[hash][ext]maincg/app/a.pngsalt/app/a.png'')"
    by (simp add: resolvedFilename_def generate_defs relativeFilename_def example_defs js_def)
  from generate_resource_deterministic [OF t d d s s refl o, of exampleEnv ?g1 ?g2] e p
  show ?thesis
    unfolding h f by simp
qed

end
